theory Spec2Isabelle
  imports Complex_Main "HOL-Library.Word" "HOL-Library.Multiset" "HOL-Library.Sublist"
begin

section \<open>Marker service: the schema and the two request handlers of server.js\<close>

text \<open>
  The service is an Express application with two routes, \<^verbatim>\<open>GET /markers\<close> (lines 92-102)
  and \<^verbatim>\<open>POST /markers\<close> (lines 126-145), over one mongoose model \<^verbatim>\<open>Marker\<close> whose schema
  is declared in lines 48-78. The handlers are embedded as functions of the collection
  (the list of stored documents, in insertion order) and of what the environment supplies
  to one request: the clock, the generated ObjectId, and whether the database call fails.
  The schema is declarative; each option is embedded by the behaviour mongoose 5 gives it
  (the connection options of lines 36-37 are those of mongoose 5): casting on assignment,
  the \<^verbatim>\<open>trim\<close> setter, the validators in the order \<^verbatim>\<open>required\<close>, lower bound, upper bound, and
  the unique compound index on the position.
\<close>

subsection \<open>JavaScript values\<close>

text \<open>
  A JavaScript string is a sequence of UTF-16 code units; \<^verbatim>\<open>length\<close> counts code units and
  \<^verbatim>\<open>trim\<close> removes the code units of the ECMAScript classes WhiteSpace and LineTerminator.
\<close>

type_synonym jsstring = "16 word list"

definition ascii :: "string \<Rightarrow> jsstring" where
  "ascii s = map (\<lambda>c. of_nat (of_char c)) s"

text \<open>
  A number of a decoded JSON body is a finite double or, for a literal beyond the double
  range such as \<^verbatim>\<open>1e999\<close>, an infinity. Finite doubles are taken as the reals they denote,
  with the order and equality of the reals; rounding is not part of the model.
\<close>

datatype jsnum = NegInf | Fin real | PosInf

fun num_ge :: "jsnum \<Rightarrow> real \<Rightarrow> bool" where
  "num_ge NegInf c = False"
| "num_ge (Fin x) c = (c \<le> x)"
| "num_ge PosInf c = True"

fun num_le :: "jsnum \<Rightarrow> real \<Rightarrow> bool" where
  "num_le NegInf c = True"
| "num_le (Fin x) c = (x \<le> c)"
| "num_le PosInf c = False"

text \<open>
  The value of one property of the request body after \<^verbatim>\<open>express.json\<close> has decoded it and
  line 128 has destructured it: \<open>JUndefined\<close> is an absent property. The properties of an
  object are listed with distinct names.
\<close>

datatype jsval =
    JUndefined
  | JNull
  | JBool bool
  | JNum jsnum
  | JStr jsstring
  | JArr "jsval list"
  | JObj "(jsstring \<times> jsval) list"

text \<open>
  Two conversions of the language are used by the casts and are not part of the
  repository: \<^verbatim>\<open>Number(s)\<close> on a string (\<open>None\<close> stands for \<^verbatim>\<open>NaN\<close>) and \<^verbatim>\<open>n.toString()\<close> on
  a number. They are parameters of the model.
\<close>

record builtins =
  Number_of :: "jsstring \<Rightarrow> jsnum option"
  toString_of :: "jsnum \<Rightarrow> jsstring"

subsection \<open>String trimming\<close>

definition is_ws :: "16 word \<Rightarrow> bool" where
  "is_ws c \<longleftrightarrow>
     c = 0x0009 \<or> c = 0x000A \<or> c = 0x000B \<or> c = 0x000C \<or> c = 0x000D \<or> c = 0x0020 \<or>
     c = 0x00A0 \<or> c = 0x1680 \<or> (0x2000 \<le> c \<and> c \<le> 0x200A) \<or> c = 0x2028 \<or> c = 0x2029 \<or>
     c = 0x202F \<or> c = 0x205F \<or> c = 0x3000 \<or> c = 0xFEFF"

definition trim :: "jsstring \<Rightarrow> jsstring" where
  "trim s = rev (dropWhile is_ws (rev (dropWhile is_ws s)))"

subsection \<open>The schema (lines 48-75)\<close>

text \<open>The configured messages, as the code units of the literals in the source.\<close>

definition msg_lat_required :: jsstring where
  "msg_lat_required = [0x7EAC, 0x5EA6, 0x4E0D, 0x80FD, 0x4E3A, 0x7A7A]"

definition msg_lat_min :: jsstring where
  "msg_lat_min = [0x7EAC, 0x5EA6, 0x4E0D, 0x80FD, 0x5C0F, 0x4E8E, 0x002D, 0x0039, 0x0030]"

definition msg_lat_max :: jsstring where
  "msg_lat_max = [0x7EAC, 0x5EA6, 0x4E0D, 0x80FD, 0x5927, 0x4E8E, 0x0039, 0x0030]"

definition msg_lng_required :: jsstring where
  "msg_lng_required = [0x7ECF, 0x5EA6, 0x4E0D, 0x80FD, 0x4E3A, 0x7A7A]"

definition msg_lng_min :: jsstring where
  "msg_lng_min = [0x7ECF, 0x5EA6, 0x4E0D, 0x80FD, 0x5C0F, 0x4E8E, 0x002D, 0x0031, 0x0038, 0x0030]"

definition msg_lng_max :: jsstring where
  "msg_lng_max = [0x7ECF, 0x5EA6, 0x4E0D, 0x80FD, 0x5927, 0x4E8E, 0x0031, 0x0038, 0x0030]"

definition msg_content_required :: jsstring where
  "msg_content_required = [0x6807, 0x6CE8, 0x5185, 0x5BB9, 0x4E0D, 0x80FD, 0x4E3A, 0x7A7A]"

definition msg_content_minlength :: jsstring where
  "msg_content_minlength =
     [0x5185, 0x5BB9, 0x81F3, 0x5C11, 0x9700, 0x8981, 0x0031, 0x4E2A, 0x5B57, 0x7B26]"

definition msg_content_maxlength :: jsstring where
  "msg_content_maxlength =
     [0x5185, 0x5BB9, 0x4E0D, 0x80FD, 0x8D85, 0x8FC7, 0x0032, 0x0030, 0x0030, 0x4E2A, 0x5B57, 0x7B26]"

text \<open>The message of the \<^verbatim>\<open>GET\<close> handler's catch block (line 99).\<close>

definition msg_fetch_failed :: jsstring where
  "msg_fetch_failed = [0x83B7, 0x53D6, 0x6570, 0x636E, 0x5931, 0x8D25]"

text \<open>
  Casting. Assigning a value to a path of type \<^verbatim>\<open>Number\<close> or \<^verbatim>\<open>String\<close> casts it; a value that
  cannot be cast leaves the path unset and records a cast error for it. \<open>Cast_ok None\<close> is
  a path left \<^verbatim>\<open>null\<close> or \<^verbatim>\<open>undefined\<close>.
\<close>

datatype 'a cast = Cast_failed | Cast_ok "'a option"

fun castNumber :: "builtins \<Rightarrow> jsval \<Rightarrow> jsnum cast" where
  "castNumber js JUndefined = Cast_ok None"
| "castNumber js JNull = Cast_ok None"
| "castNumber js (JStr s) =
     (if s = [] then Cast_ok None
      else case Number_of js s of None \<Rightarrow> Cast_failed | Some n \<Rightarrow> Cast_ok (Some n))"
| "castNumber js (JBool b) = Cast_ok (Some (Fin (if b then 1 else 0)))"
| "castNumber js (JNum n) = Cast_ok (Some n)"
| "castNumber js (JArr xs) = Cast_failed"
| "castNumber js (JObj fs) = Cast_failed"

text \<open>
  The cast of a \<^verbatim>\<open>Number\<close> path. Before the conversion above, a value that has an \<^verbatim>\<open>_id\<close>
  property other than \<^verbatim>\<open>undefined\<close> is replaced by that \<^verbatim>\<open>_id\<close>; of the values of a decoded body
  only an object can have one. The replacement is made once: an \<^verbatim>\<open>_id\<close> that is itself an
  object is not looked into.
\<close>

definition SchemaNumber_cast :: "builtins \<Rightarrow> jsval \<Rightarrow> jsnum cast" where
  "SchemaNumber_cast js v =
     (case v of
        JObj fs \<Rightarrow>
          (case map_of fs (ascii ''_id'') of
             None \<Rightarrow> castNumber js v
           | Some JUndefined \<Rightarrow> castNumber js v
           | Some w \<Rightarrow> castNumber js w)
      | _ \<Rightarrow> castNumber js v)"

fun castString :: "builtins \<Rightarrow> jsval \<Rightarrow> jsstring cast" where
  "castString js JUndefined = Cast_ok None"
| "castString js JNull = Cast_ok None"
| "castString js (JStr s) = Cast_ok (Some s)"
| "castString js (JBool b) = Cast_ok (Some (ascii (if b then ''true'' else ''false'')))"
| "castString js (JNum n) = Cast_ok (Some (toString_of js n))"
| "castString js (JArr xs) = Cast_failed"
| "castString js (JObj fs) =
     (case map_of fs (ascii ''_id'') of
        Some (JStr s) \<Rightarrow> if s \<noteq> [] then Cast_ok (Some s) else Cast_failed
      | _ \<Rightarrow> Cast_failed)"

text \<open>
  The setter installed by \<^verbatim>\<open>trim: true\<close> (line 66): a value that is not a string is cast
  first, and a non-empty string is trimmed.
\<close>

definition set_content :: "builtins \<Rightarrow> jsval \<Rightarrow> jsstring cast" where
  "set_content js v =
     (case castString js v of
        Cast_failed \<Rightarrow> Cast_failed
      | Cast_ok None \<Rightarrow> Cast_ok None
      | Cast_ok (Some s) \<Rightarrow> Cast_ok (Some (if s \<noteq> [] then trim s else s)))"

text \<open>
  Validators. Each path has its validators in a list, \<^verbatim>\<open>required\<close> first, then the bounds
  in the order of declaration; validating a path reports the first validator that fails.
\<close>

datatype kind = K_required | K_min | K_max | K_minlength | K_maxlength

datatype path_error = CastError | ValidatorError kind jsstring

type_synonym 'a validator = "('a option \<Rightarrow> bool) \<times> kind \<times> jsstring"

definition required_number :: "jsnum option \<Rightarrow> bool" where
  "required_number v \<longleftrightarrow> v \<noteq> None"

definition min_validator :: "real \<Rightarrow> jsnum option \<Rightarrow> bool" where
  "min_validator c v = (case v of None \<Rightarrow> True | Some n \<Rightarrow> num_ge n c)"

definition max_validator :: "real \<Rightarrow> jsnum option \<Rightarrow> bool" where
  "max_validator c v = (case v of None \<Rightarrow> True | Some n \<Rightarrow> num_le n c)"

definition required_string :: "jsstring option \<Rightarrow> bool" where
  "required_string v = (case v of None \<Rightarrow> False | Some s \<Rightarrow> length s \<noteq> 0)"

definition minlength_validator :: "nat \<Rightarrow> jsstring option \<Rightarrow> bool" where
  "minlength_validator n v = (case v of None \<Rightarrow> True | Some s \<Rightarrow> n \<le> length s)"

definition maxlength_validator :: "nat \<Rightarrow> jsstring option \<Rightarrow> bool" where
  "maxlength_validator n v = (case v of None \<Rightarrow> True | Some s \<Rightarrow> length s \<le> n)"

definition lat_validators :: "jsnum validator list" where
  "lat_validators =
     [(required_number, K_required, msg_lat_required),
      (min_validator (- 90), K_min, msg_lat_min),
      (max_validator 90, K_max, msg_lat_max)]"

definition lng_validators :: "jsnum validator list" where
  "lng_validators =
     [(required_number, K_required, msg_lng_required),
      (min_validator (- 180), K_min, msg_lng_min),
      (max_validator 180, K_max, msg_lng_max)]"

definition content_validators :: "jsstring validator list" where
  "content_validators =
     [(required_string, K_required, msg_content_required),
      (minlength_validator 1, K_minlength, msg_content_minlength),
      (maxlength_validator 200, K_maxlength, msg_content_maxlength)]"

fun doValidate :: "'a validator list \<Rightarrow> 'a option \<Rightarrow> path_error option" where
  "doValidate [] v = None"
| "doValidate ((ok, k, m) # vs) v =
     (if ok v then doValidate vs v else Some (ValidatorError k m))"

text \<open>A cast error recorded for a path stays its error; otherwise the validators run.\<close>

definition validate_path :: "'a validator list \<Rightarrow> 'a cast \<Rightarrow> path_error option" where
  "validate_path vs c =
     (case c of Cast_failed \<Rightarrow> Some CastError | Cast_ok v \<Rightarrow> doValidate vs v)"





subsection \<open>Documents, the collection and the environment of a request\<close>

text \<open>
  A stored document. \<open>oid\<close> is the property \<^verbatim>\<open>_id\<close> and \<open>version\<close> the version key \<^verbatim>\<open>__v\<close>
  (an identifier here cannot begin with an underscore); \<open>createdAt\<close> is in milliseconds.
\<close>

record position =
  lat :: jsnum
  lng :: jsnum

record marker =
  oid :: nat
  position :: position
  content :: jsstring
  createdAt :: int
  version :: nat

record request_body =
  req_lat :: jsval
  req_lng :: jsval
  req_content :: jsval

text \<open>
  What one request takes from outside the handler: \<^verbatim>\<open>Date.now()\<close> in milliseconds, the
  ObjectId generated for the new document, and the failure of the database call if it
  fails (the message of the error the driver raises).
\<close>

record env =
  now :: int
  new_oid :: nat
  fault :: "jsstring option"

text \<open>
  The error of a failed document validation has one entry for every failing path. The
  order in which the joined message lists them is not modelled.
\<close>

record validation_errors =
  err_lat :: "path_error option"
  err_lng :: "path_error option"
  err_content :: "path_error option"

datatype index = Id_index | Position_index

datatype error =
    ValidationError validation_errors
  | DuplicateKeyError index
  | StoreError jsstring

definition no_errors :: validation_errors where
  "no_errors = \<lparr>err_lat = None, err_lng = None, err_content = None\<rparr>"

definition validate :: "builtins \<Rightarrow> request_body \<Rightarrow> validation_errors" where
  "validate js b =
     \<lparr>err_lat = validate_path lat_validators (SchemaNumber_cast js (req_lat b)),
      err_lng = validate_path lng_validators (SchemaNumber_cast js (req_lng b)),
      err_content = validate_path content_validators (set_content js (req_content b))\<rparr>"


text \<open>
  \<^verbatim>\<open>new Marker({position: {lat, lng}, content})\<close> followed by the validation that precedes
  saving: the document with its defaults (\<^verbatim>\<open>_id\<close>, \<^verbatim>\<open>createdAt\<close> of line 72, version key), or
  the validation error.
\<close>

definition new_Marker :: "builtins \<Rightarrow> env \<Rightarrow> request_body \<Rightarrow> error + marker" where
  "new_Marker js e b =
     (let errs = validate js b in
      case (SchemaNumber_cast js (req_lat b), SchemaNumber_cast js (req_lng b),
            set_content js (req_content b)) of
        (Cast_ok (Some x), Cast_ok (Some y), Cast_ok (Some c)) \<Rightarrow>
          if errs = no_errors
          then Inr \<lparr>oid = new_oid e, position = \<lparr>lat = x, lng = y\<rparr>, content = c,
                    createdAt = now e, version = 0\<rparr>
          else Inl (ValidationError errs)
      | _ \<Rightarrow> Inl (ValidationError errs))"

text \<open>
  The insert at the database: it fails when the call itself fails, and the unique indexes
  (the one on \<^verbatim>\<open>_id\<close>, and the compound one of line 78) reject a document whose key is
  already present; otherwise the document is added.
\<close>

definition insertOne :: "env \<Rightarrow> marker list \<Rightarrow> marker \<Rightarrow> error + marker list" where
  "insertOne e docs d =
     (case fault e of
        Some m \<Rightarrow> Inl (StoreError m)
      | None \<Rightarrow>
          if oid d \<in> set (map oid docs) then Inl (DuplicateKeyError Id_index)
          else if position d \<in> set (map position docs) then Inl (DuplicateKeyError Position_index)
          else Inr (docs @ [d]))"

definition create :: "builtins \<Rightarrow> env \<Rightarrow> marker list \<Rightarrow> request_body \<Rightarrow> error + marker \<times> marker list" where
  "create js e docs b =
     (case new_Marker js e b of
        Inl err \<Rightarrow> Inl err
      | Inr d \<Rightarrow> (case insertOne e docs d of Inl err \<Rightarrow> Inl err | Inr docs' \<Rightarrow> Inr (d, docs')))"

subsection \<open>The handlers\<close>

datatype message = Literal jsstring | Message_of error

datatype payload = Data marker | Data_list "marker list" | Message message

record response =
  code :: nat
  status :: string
  payload :: payload

definition get_markers :: "env \<Rightarrow> marker list \<Rightarrow> response" where
  "get_markers e docs =
     (case fault e of
        None \<Rightarrow>
          \<lparr>code = 200, status = ''success'',
           payload = Data_list (sort_key (\<lambda>m. - createdAt m) docs)\<rparr>
      | Some m \<Rightarrow>
          \<lparr>code = 500, status = ''error'', payload = Message (Literal msg_fetch_failed)\<rparr>)"

definition post_markers :: "builtins \<Rightarrow> env \<Rightarrow> marker list \<Rightarrow> request_body \<Rightarrow> response \<times> marker list" where
  "post_markers js e docs b =
     (case create js e docs b of
        Inr (d, docs') \<Rightarrow> (\<lparr>code = 201, status = ''success'', payload = Data d\<rparr>, docs')
      | Inl err \<Rightarrow>
          (\<lparr>code = 400, status = ''fail'', payload = Message (Message_of err)\<rparr>, docs))"

text \<open>
  The service handles one request after the other; only \<^verbatim>\<open>POST\<close> changes the collection.
  \<open>run\<close> is the collection after a sequence of \<^verbatim>\<open>POST\<close> requests, each with its environment.
\<close>

definition run :: "builtins \<Rightarrow> (env \<times> request_body) list \<Rightarrow> marker list \<Rightarrow> marker list" where
  "run js reqs docs = fold (\<lambda>(e, b) ds. snd (post_markers js e ds b)) reqs docs"

definition unique_positions :: "marker list \<Rightarrow> bool" where
  "unique_positions docs \<longleftrightarrow> distinct (map position docs)"

text \<open>The content of every stored marker is trimmed and between 1 and 200 code units long.\<close>

definition content_normal :: "marker list \<Rightarrow> bool" where
  "content_normal ds \<longleftrightarrow>
     (\<forall>m \<in> set ds. trim (content m) = content m \<and> 1 \<le> length (content m)
        \<and> length (content m) \<le> 200)"

subsection \<open>The response body as JSON\<close>

text \<open>
  \<^verbatim>\<open>res.json\<close> serialises a document through its \<^verbatim>\<open>toJSON\<close>, which the schema does not
  configure: the stored paths, without virtuals. The leaves keep their type (an ObjectId,
  a date) instead of their text, and an object is a list of its properties whose order
  carries no meaning.
\<close>

datatype json =
    J_string jsstring
  | J_number jsnum
  | J_nat nat
  | J_ObjectId nat
  | J_Date int
  | J_message message
  | J_array "json list"
  | J_object "(string \<times> json) list"

definition toJSON :: "marker \<Rightarrow> (string \<times> json) list" where
  "toJSON d =
     [(''position'', J_object [(''lat'', J_number (lat (position d))),
                               (''lng'', J_number (lng (position d)))]),
      (''_id'', J_ObjectId (oid d)),
      (''content'', J_string (content d)),
      (''createdAt'', J_Date (createdAt d)),
      (''__v'', J_nat (version d))]"

definition response_json :: "response \<Rightarrow> (string \<times> json) list" where
  "response_json r =
     [(''status'', J_string (ascii (status r))),
      (case payload r of
         Data d \<Rightarrow> (''data'', J_object (toJSON d))
       | Data_list ds \<Rightarrow> (''data'', J_array (map (\<lambda>d. J_object (toJSON d)) ds))
       | Message m \<Rightarrow> (''message'', J_message m))]"

text \<open>The serialised markers of a response: the objects under its \<^verbatim>\<open>data\<close> property.\<close>

definition data_markers :: "response \<Rightarrow> (string \<times> json) list list" where
  "data_markers r =
     (case map_of (response_json r) ''data'' of
        Some (J_object kv) \<Rightarrow> [kv]
      | Some (J_array xs) \<Rightarrow> concat (map (\<lambda>j. case j of J_object kv \<Rightarrow> [kv] | _ \<Rightarrow> []) xs)
      | _ \<Rightarrow> [])"

definition keys :: "(string \<times> json) list \<Rightarrow> string set" where
  "keys kv = set (map fst kv)"

subsection \<open>The validator as the specification words it\<close>



subsection \<open>Concrete instances\<close>

text \<open>
  An instance of the two conversions for the evaluations at concrete inputs. It agrees
  with ECMAScript on the arguments that occur there, \<^verbatim>\<open>Number("45") = 45\<close> and
  \<^verbatim>\<open>(7).toString() = "7"\<close>; no general theorem depends on its other values.
\<close>

definition sample_conversions :: builtins where
  "sample_conversions =
     \<lparr>Number_of = (\<lambda>s. if s = ascii ''45'' then Some (Fin 45) else None),
      toString_of = (\<lambda>n. if n = Fin 7 then ascii ''7'' else ascii ''NaN'')\<rparr>"

definition env_at :: "int \<Rightarrow> nat \<Rightarrow> env" where
  "env_at t i = \<lparr>now = t, new_oid = i, fault = None\<rparr>"

definition body_of :: "real \<Rightarrow> real \<Rightarrow> string \<Rightarrow> request_body" where
  "body_of x y c = \<lparr>req_lat = JNum (Fin x), req_lng = JNum (Fin y), req_content = JStr (ascii c)\<rparr>"

section \<open>Properties\<close>

subsection \<open>Evaluation and the shape of a request's outcome\<close>

lemmas model_defs =
  post_markers_def create_def new_Marker_def insertOne_def validate_def validate_path_def
  lat_validators_def lng_validators_def content_validators_def set_content_def
  required_number_def min_validator_def max_validator_def
  required_string_def minlength_validator_def maxlength_validator_def
  no_errors_def ascii_def trim_def is_ws_def env_at_def body_of_def run_def
  sample_conversions_def SchemaNumber_cast_def

lemma lat_path_ok:
  "validate_path lat_validators c = None \<Longrightarrow> \<exists>x. c = Cast_ok (Some x)"
  by (cases c) (auto simp: validate_path_def lat_validators_def required_number_def
                     split: if_splits)

lemma lng_path_ok:
  "validate_path lng_validators c = None \<Longrightarrow> \<exists>x. c = Cast_ok (Some x)"
  by (cases c) (auto simp: validate_path_def lng_validators_def required_number_def
                     split: if_splits)

lemma content_path_ok:
  "validate_path content_validators c = None \<Longrightarrow> \<exists>x. c = Cast_ok (Some x)"
  by (cases c) (auto simp: validate_path_def content_validators_def required_string_def
                     split: if_splits option.splits)

lemma validate_no_errors:
  "validate js b = no_errors \<longleftrightarrow>
     validate_path lat_validators (SchemaNumber_cast js (req_lat b)) = None \<and>
     validate_path lng_validators (SchemaNumber_cast js (req_lng b)) = None \<and>
     validate_path content_validators (set_content js (req_content b)) = None"
  by (simp add: validate_def no_errors_def)

text \<open>A document is constructed exactly when no path has an error.\<close>

lemma new_Marker_cases:
  "(validate js b = no_errors \<and>
      (\<exists>x y c. SchemaNumber_cast js (req_lat b) = Cast_ok (Some x)
         \<and> SchemaNumber_cast js (req_lng b) = Cast_ok (Some y)
         \<and> set_content js (req_content b) = Cast_ok (Some c)
         \<and> new_Marker js e b =
              Inr \<lparr>oid = new_oid e, position = \<lparr>lat = x, lng = y\<rparr>, content = c,
                   createdAt = now e, version = 0\<rparr>))
   \<or> (validate js b \<noteq> no_errors \<and> new_Marker js e b = Inl (ValidationError (validate js b)))"
proof (cases "validate js b = no_errors")
  case True
  then obtain x y c where "SchemaNumber_cast js (req_lat b) = Cast_ok (Some x)"
     "SchemaNumber_cast js (req_lng b) = Cast_ok (Some y)"
     "set_content js (req_content b) = Cast_ok (Some c)"
    using lat_path_ok lng_path_ok content_path_ok unfolding validate_no_errors by blast
  with True show ?thesis by (simp add: new_Marker_def)
next
  case False
  then have "new_Marker js e b = Inl (ValidationError (validate js b))"
    by (simp add: new_Marker_def Let_def split: cast.split option.split)
  with False show ?thesis by simp
qed

lemma new_Marker_Inr:
  assumes "new_Marker js e b = Inr d"
  shows "\<exists>x y c. SchemaNumber_cast js (req_lat b) = Cast_ok (Some x)
           \<and> SchemaNumber_cast js (req_lng b) = Cast_ok (Some y)
           \<and> set_content js (req_content b) = Cast_ok (Some c)
           \<and> validate js b = no_errors
           \<and> d = \<lparr>oid = new_oid e, position = \<lparr>lat = x, lng = y\<rparr>, content = c,
                   createdAt = now e, version = 0\<rparr>"
  using assms new_Marker_cases [of js b e] by auto

lemma new_Marker_Inl:
  assumes "new_Marker js e b = Inl err"
  shows "err = ValidationError (validate js b) \<and> validate js b \<noteq> no_errors"
  using assms new_Marker_cases [of js b e] by auto

lemma post_markers_invalid:
  assumes "new_Marker js e b = Inl err"
  shows "post_markers js e docs b =
           (\<lparr>code = 400, status = ''fail'', payload = Message (Message_of err)\<rparr>, docs)"
  using assms by (simp add: post_markers_def create_def)

lemma post_markers_valid:
  assumes "new_Marker js e b = Inr d"
  shows "post_markers js e docs b =
           (case insertOne e docs d of
              Inl err \<Rightarrow> (\<lparr>code = 400, status = ''fail'', payload = Message (Message_of err)\<rparr>, docs)
            | Inr docs' \<Rightarrow> (\<lparr>code = 201, status = ''success'', payload = Data d\<rparr>, docs'))"
  using assms by (simp add: post_markers_def create_def split: sum.splits)

text \<open>A request leaves the collection as it was or appends the one new document.\<close>

lemma post_markers_store:
  "snd (post_markers js e docs b) = docs \<or>
   (\<exists>d. new_Marker js e b = Inr d \<and> position d \<notin> set (map position docs)
        \<and> snd (post_markers js e docs b) = docs @ [d])"
proof (cases "new_Marker js e b")
  case (Inl err)
  then show ?thesis by (simp add: post_markers_invalid)
next
  case (Inr d)
  then show ?thesis
    by (auto simp: post_markers_valid insertOne_def split: option.splits)
qed

lemma run_Nil: "run js [] docs = docs"
  by (simp add: run_def)

lemma run_snoc: "run js (reqs @ [(e, b)]) docs = snd (post_markers js e (run js reqs docs) b)"
  by (simp add: run_def)

lemma run_invariant:
  assumes init: "P docs"
    and step: "\<And>e b ds. P ds \<Longrightarrow> P (snd (post_markers js e ds b))"
  shows "P (run js reqs docs)"
proof (induction reqs rule: rev_induct)
  case Nil
  show ?case by (simp add: run_Nil init)
next
  case (snoc r reqs)
  obtain e b where r: "r = (e, b)" by (cases r)
  from snoc show ?case unfolding r run_snoc by (rule step)
qed

subsection \<open>Uniqueness of positions\<close>

lemma unique_positions_step:
  assumes "unique_positions ds"
  shows "unique_positions (snd (post_markers js e ds b))"
  using post_markers_store [of js e ds b] assms
  by (auto simp: unique_positions_def)

lemma unique_positions_run: "unique_positions (run js reqs [])"
  by (rule run_invariant) (simp_all add: unique_positions_def unique_positions_step [unfolded unique_positions_def])

lemma distinct_count_one:
  assumes "distinct (map f xs)" "p \<in> set (map f xs)"
  shows "length (filter (\<lambda>m. f m = p) xs) = 1"
  using assms
proof (induction xs)
  case Nil
  then show ?case by simp
next
  case (Cons a xs)
  show ?case
  proof (cases "f a = p")
    case True
    with Cons.prems have "p \<notin> set (map f xs)" by auto
    then have "filter (\<lambda>m. f m = p) xs = []" by (auto simp: filter_empty_conv)
    with True show ?thesis by simp
  next
    case False
    with Cons show ?thesis by auto
  qed
qed

text \<open>
  C1. In every collection the service can reach from the empty one, the positions of the
  stored markers are pairwise different. When a request validates, the database call
  does not fail, and a stored marker already has the request's position, the request is
  answered 400 with a duplicate key error, the collection is unchanged, and it holds
  exactly one marker at that position.
\<close>

theorem position_unique:
  "unique_positions (run js reqs []) \<and>
   (new_Marker js e b = Inr d \<and> fault e = None
      \<and> position d \<in> set (map position (run js reqs [])) \<longrightarrow>
    (\<exists>ix. post_markers js e (run js reqs []) b =
            (\<lparr>code = 400, status = ''fail'',
              payload = Message (Message_of (DuplicateKeyError ix))\<rparr>, run js reqs []))
    \<and> length (filter (\<lambda>m. position m = position d) (run js reqs [])) = 1)"
proof (intro conjI impI)
  show u: "unique_positions (run js reqs [])" by (rule unique_positions_run)
  assume a: "new_Marker js e b = Inr d \<and> fault e = None
      \<and> position d \<in> set (map position (run js reqs []))"
  then show "\<exists>ix. post_markers js e (run js reqs []) b =
            (\<lparr>code = 400, status = ''fail'',
              payload = Message (Message_of (DuplicateKeyError ix))\<rparr>, run js reqs [])"
    by (auto simp: post_markers_valid insertOne_def)
  from u a show "length (filter (\<lambda>m. position m = position d) (run js reqs [])) = 1"
    unfolding unique_positions_def by (intro distinct_count_one) simp_all
qed

text \<open>
  The instance: a marker is created at (10, 20); a second request at (10, 20) is
  rejected with the duplicate key error of the position index.
\<close>

theorem position_unique_witness:
  "new_Marker sample_conversions (env_at 2000 2) (body_of 10 20 ''b'') =
     Inr \<lparr>oid = 2, position = \<lparr>lat = Fin 10, lng = Fin 20\<rparr>, content = ascii ''b'',
          createdAt = 2000, version = 0\<rparr>
   \<and> fault (env_at 2000 2) = None
   \<and> \<lparr>lat = Fin 10, lng = Fin 20\<rparr>
       \<in> set (map position (run sample_conversions [(env_at 1000 1, body_of 10 20 ''a'')] []))
   \<and> post_markers sample_conversions (env_at 2000 2)
       (run sample_conversions [(env_at 1000 1, body_of 10 20 ''a'')] []) (body_of 10 20 ''b'') =
       (\<lparr>code = 400, status = ''fail'',
         payload = Message (Message_of (DuplicateKeyError Position_index))\<rparr>,
        run sample_conversions [(env_at 1000 1, body_of 10 20 ''a'')] [])
   \<and> length (filter (\<lambda>m. position m = \<lparr>lat = Fin 10, lng = Fin 20\<rparr>)
               (run sample_conversions [(env_at 1000 1, body_of 10 20 ''a'')] [])) = 1"
proof -
  let ?d = "\<lparr>oid = 2, position = \<lparr>lat = Fin 10, lng = Fin 20\<rparr>, content = ascii ''b'',
          createdAt = 2000, version = 0\<rparr>"
  let ?s = "run sample_conversions [(env_at 1000 1, body_of 10 20 ''a'')] []"
  have s: "?s = [\<lparr>oid = 1, position = \<lparr>lat = Fin 10, lng = Fin 20\<rparr>, content = ascii ''a'',
                  createdAt = 1000, version = 0\<rparr>]"
    by (simp add: model_defs)
  have h: "new_Marker sample_conversions (env_at 2000 2) (body_of 10 20 ''b'') = Inr ?d
      \<and> fault (env_at 2000 2) = None \<and> position ?d \<in> set (map position ?s)"
    unfolding s by (simp add: model_defs)
  have p: "post_markers sample_conversions (env_at 2000 2) ?s (body_of 10 20 ''b'') =
       (\<lparr>code = 400, status = ''fail'',
         payload = Message (Message_of (DuplicateKeyError Position_index))\<rparr>, ?s)"
    unfolding s by (simp add: model_defs)
  from position_unique [of sample_conversions "[(env_at 1000 1, body_of 10 20 ''a'')]"
                          "env_at 2000 2" "body_of 10 20 ''b''" ?d] h
  have "length (filter (\<lambda>m. position m = position ?d) ?s) = 1" by blast
  with h p show ?thesis by simp
qed

subsection \<open>Validation\<close>

lemma post_markers_rejects:
  assumes "validate js b \<noteq> no_errors"
  shows "post_markers js e docs b =
           (\<lparr>code = 400, status = ''fail'',
             payload = Message (Message_of (ValidationError (validate js b)))\<rparr>, docs)"
proof -
  from assms new_Marker_cases [of js b e]
  have "new_Marker js e b = Inl (ValidationError (validate js b))" by blast
  then show ?thesis by (rule post_markers_invalid)
qed

lemma err_lat_num:
  "req_lat b = JNum x \<Longrightarrow>
   err_lat (validate js b) =
     (if \<not> num_ge x (- 90) then Some (ValidatorError K_min msg_lat_min)
      else if \<not> num_le x 90 then Some (ValidatorError K_max msg_lat_max) else None)"
  by (simp add: validate_def validate_path_def lat_validators_def required_number_def
                min_validator_def max_validator_def SchemaNumber_cast_def)

lemma err_lng_num:
  "req_lng b = JNum y \<Longrightarrow>
   err_lng (validate js b) =
     (if \<not> num_ge y (- 180) then Some (ValidatorError K_min msg_lng_min)
      else if \<not> num_le y 180 then Some (ValidatorError K_max msg_lng_max) else None)"
  by (simp add: validate_def validate_path_def lng_validators_def required_number_def
                min_validator_def max_validator_def SchemaNumber_cast_def)

text \<open>
  C2. When the request's lat is a number outside [-90, 90] or its lng is a number outside
  [-180, 180], the request is answered 400 with a validation error that carries, for the
  offending field, the error of the bound it violates (the lower-bound validator below
  the range, the upper-bound validator above it), and the collection is unchanged. The
  database is not consulted: the outcome is the same whether or not its call would fail.
\<close>

theorem out_of_range_rejected:
  assumes "req_lat b = JNum x \<and> \<not> (num_ge x (- 90) \<and> num_le x 90)
         \<or> req_lng b = JNum y \<and> \<not> (num_ge y (- 180) \<and> num_le y 180)"
  shows "\<exists>errs. post_markers js e docs b =
            (\<lparr>code = 400, status = ''fail'',
              payload = Message (Message_of (ValidationError errs))\<rparr>, docs)
          \<and> (req_lat b = JNum x \<and> \<not> num_ge x (- 90) \<longrightarrow>
                err_lat errs = Some (ValidatorError K_min msg_lat_min))
          \<and> (req_lat b = JNum x \<and> num_ge x (- 90) \<and> \<not> num_le x 90 \<longrightarrow>
                err_lat errs = Some (ValidatorError K_max msg_lat_max))
          \<and> (req_lng b = JNum y \<and> \<not> num_ge y (- 180) \<longrightarrow>
                err_lng errs = Some (ValidatorError K_min msg_lng_min))
          \<and> (req_lng b = JNum y \<and> num_ge y (- 180) \<and> \<not> num_le y 180 \<longrightarrow>
                err_lng errs = Some (ValidatorError K_max msg_lng_max))"
proof -
  from assms have "err_lat (validate js b) \<noteq> None \<or> err_lng (validate js b) \<noteq> None"
  proof
    assume "req_lat b = JNum x \<and> \<not> (num_ge x (- 90) \<and> num_le x 90)"
    then have "err_lat (validate js b) \<noteq> None" by (auto simp: err_lat_num)
    then show ?thesis ..
  next
    assume "req_lng b = JNum y \<and> \<not> (num_ge y (- 180) \<and> num_le y 180)"
    then have "err_lng (validate js b) \<noteq> None" by (auto simp: err_lng_num)
    then show ?thesis ..
  qed
  then have "validate js b \<noteq> no_errors" by (auto simp: no_errors_def)
  then have "post_markers js e docs b =
           (\<lparr>code = 400, status = ''fail'',
             payload = Message (Message_of (ValidationError (validate js b)))\<rparr>, docs)"
    by (rule post_markers_rejects)
  then show ?thesis by (auto simp: err_lat_num err_lng_num)
qed

text \<open>The instance: lat = 91 and lng = -181 on the empty collection.\<close>

theorem out_of_range_rejected_witness:
  "post_markers sample_conversions \<lparr>now = 1000, new_oid = 1, fault = None\<rparr> []
       \<lparr>req_lat = JNum (Fin 91), req_lng = JNum (Fin (- 181)), req_content = JStr (ascii ''x'')\<rparr> =
     (\<lparr>code = 400, status = ''fail'',
       payload = Message (Message_of (ValidationError
         \<lparr>err_lat = Some (ValidatorError K_max msg_lat_max),
          err_lng = Some (ValidatorError K_min msg_lng_min),
          err_content = None\<rparr>))\<rparr>, [])"
proof -
  let ?b = "\<lparr>req_lat = JNum (Fin 91), req_lng = JNum (Fin (- 181)), req_content = JStr (ascii ''x'')\<rparr>"
  have h: "req_lat ?b = JNum (Fin 91) \<and> \<not> (num_ge (Fin 91) (- 90) \<and> num_le (Fin 91) 90)
         \<or> req_lng ?b = JNum (Fin (- 181)) \<and> \<not> (num_ge (Fin (- 181)) (- 180) \<and> num_le (Fin (- 181)) 180)"
    by simp
  from out_of_range_rejected [OF h, of sample_conversions "\<lparr>now = 1000, new_oid = 1, fault = None\<rparr>" "[]"]
  obtain errs where p: "post_markers sample_conversions \<lparr>now = 1000, new_oid = 1, fault = None\<rparr> [] ?b =
            (\<lparr>code = 400, status = ''fail'',
              payload = Message (Message_of (ValidationError errs))\<rparr>, [])"
     and l: "err_lat errs = Some (ValidatorError K_max msg_lat_max)"
     and g: "err_lng errs = Some (ValidatorError K_min msg_lng_min)"
    by auto
  have "post_markers sample_conversions \<lparr>now = 1000, new_oid = 1, fault = None\<rparr> [] ?b =
      (\<lparr>code = 400, status = ''fail'',
              payload = Message (Message_of (ValidationError (validate sample_conversions ?b)))\<rparr>, [])"
    by (rule post_markers_rejects) (simp add: model_defs)
  with p have "errs = validate sample_conversions ?b" by simp
  then have "err_content errs = None" by (simp add: model_defs)
  with l g have "errs = \<lparr>err_lat = Some (ValidatorError K_max msg_lat_max),
          err_lng = Some (ValidatorError K_min msg_lng_min),
          err_content = None\<rparr>" by (cases errs) simp
  with p show ?thesis by simp
qed

subsection \<open>Content\<close>

lemma dropWhile_id: "xs \<noteq> [] \<Longrightarrow> \<not> P (hd xs) \<Longrightarrow> dropWhile P xs = xs"
  by (cases xs) auto

lemma strip_ends:
  fixes P :: "'a \<Rightarrow> bool"
  defines "t \<equiv> \<lambda>s. rev (dropWhile P (rev (dropWhile P s)))"
  assumes ne: "t s \<noteq> []"
  shows "\<not> P (hd (t s)) \<and> \<not> P (last (t s))"
proof -
  let ?u = "dropWhile P s"
  let ?v = "dropWhile P (rev ?u)"
  have v_ne: "?v \<noteq> []" using ne by (simp add: t_def)
  then have last_ok: "\<not> P (hd ?v)" by (rule hd_dropWhile)
  have u_ne: "?u \<noteq> []"
  proof
    assume a: "?u = []"
    have "?v = []" unfolding a by simp
    with v_ne show False by simp
  qed
  then have hd_u: "\<not> P (hd ?u)" by (rule hd_dropWhile)
  have split: "rev ?u = takeWhile P (rev ?u) @ ?v" by simp
  then have "?u = rev ?v @ rev (takeWhile P (rev ?u))"
    by (metis rev_append rev_rev_ident)
  then have "hd ?u = hd (rev ?v)" using v_ne
    by (metis hd_append2 rev_is_Nil_conv)
  with hd_u have "\<not> P (hd (t s))" by (simp add: t_def)
  moreover have "last (t s) = hd ?v" using v_ne by (simp add: t_def last_rev)
  ultimately show ?thesis using last_ok by simp
qed

lemma trim_Nil: "trim [] = []"
  by (simp add: trim_def)

lemma trim_ends: "trim s \<noteq> [] \<Longrightarrow> \<not> is_ws (hd (trim s)) \<and> \<not> is_ws (last (trim s))"
  unfolding trim_def by (rule strip_ends)

text \<open>A trimmed string has nothing left to trim.\<close>

lemma trim_idem: "trim (trim s) = trim s"
proof (cases "trim s = []")
  case True
  with trim_Nil show ?thesis by simp
next
  case False
  from trim_ends [OF False] have h: "\<not> is_ws (hd (trim s))" and l: "\<not> is_ws (last (trim s))" by simp_all
  have 1: "dropWhile is_ws (trim s) = trim s" using False h by (rule dropWhile_id)
  have "hd (rev (trim s)) = last (trim s)" using False by (simp add: hd_rev)
  then have 2: "dropWhile is_ws (rev (trim s)) = rev (trim s)" using False l
    by (intro dropWhile_id) simp_all
  show ?thesis
    by (subst (1) trim_def) (simp add: 1 2)
qed

lemma set_content_JStr: "set_content js (JStr s) = Cast_ok (Some (trim s))"
  by (simp add: set_content_def trim_Nil)

lemma set_content_trimmed:
  assumes "set_content js v = Cast_ok (Some c)"
  shows "trim c = c"
proof -
  from assms obtain s where c: "c = (if s \<noteq> [] then trim s else s)"
    by (auto simp: set_content_def split: cast.splits option.splits)
  show ?thesis unfolding c by (simp add: trim_idem trim_Nil)
qed

lemma content_length_ok:
  assumes "validate_path content_validators (Cast_ok (Some c)) = None"
  shows "1 \<le> length c \<and> length c \<le> 200"
  using assms
  by (auto simp: validate_path_def content_validators_def required_string_def
                 minlength_validator_def maxlength_validator_def split: if_splits)

lemma new_Marker_content:
  assumes "new_Marker js e b = Inr d"
  shows "set_content js (req_content b) = Cast_ok (Some (content d))
       \<and> trim (content d) = content d \<and> 1 \<le> length (content d) \<and> length (content d) \<le> 200"
proof -
  from new_Marker_Inr [OF assms] obtain x y c where
    c: "set_content js (req_content b) = Cast_ok (Some c)" and v: "validate js b = no_errors"
    and d: "d = \<lparr>oid = new_oid e, position = \<lparr>lat = x, lng = y\<rparr>, content = c,
                   createdAt = now e, version = 0\<rparr>" by blast
  from v c have "validate_path content_validators (Cast_ok (Some c)) = None"
    by (simp add: validate_no_errors)
  then have "1 \<le> length c \<and> length c \<le> 200" by (rule content_length_ok)
  moreover from c have "trim c = c" by (rule set_content_trimmed)
  moreover have "content d = c" by (simp add: d)
  ultimately show ?thesis using c by simp
qed

lemma content_normal_step:
  assumes "content_normal ds"
  shows "content_normal (snd (post_markers js e ds b))"
  using post_markers_store [of js e ds b]
proof
  assume "snd (post_markers js e ds b) = ds"
  with assms show ?thesis by simp
next
  assume "\<exists>d. new_Marker js e b = Inr d \<and> position d \<notin> set (map position ds)
        \<and> snd (post_markers js e ds b) = ds @ [d]"
  then obtain d where n: "new_Marker js e b = Inr d" and s: "snd (post_markers js e ds b) = ds @ [d]"
    by blast
  from new_Marker_content [OF n] assms show ?thesis
    unfolding s content_normal_def by auto
qed

lemma content_normal_run: "content_normal (run js reqs [])"
  by (rule run_invariant) (simp_all add: content_normal_step, simp add: content_normal_def)

lemma post_markers_created:
  assumes "post_markers js e docs b = (r, docs')" "code r = 201"
  shows "\<exists>d. new_Marker js e b = Inr d \<and> payload r = Data d \<and> docs' = docs @ [d]"
proof (cases "new_Marker js e b")
  case (Inl err)
  with assms show ?thesis by (auto simp: post_markers_invalid)
next
  case (Inr d)
  with assms show ?thesis
    by (auto simp: post_markers_valid insertOne_def split: option.splits if_splits)
qed

text \<open>Trimming removes a run of whitespace at each end and nothing else.\<close>

lemma trim_decompose:
  "\<exists>l t. s = l @ trim s @ t \<and> (\<forall>c \<in> set l. is_ws c) \<and> (\<forall>c \<in> set t. is_ws c)"
proof -
  let ?l = "takeWhile is_ws s"
  let ?u = "dropWhile is_ws s"
  let ?t = "rev (takeWhile is_ws (rev ?u))"
  have "rev ?u = takeWhile is_ws (rev ?u) @ dropWhile is_ws (rev ?u)" by simp
  then have "rev (rev ?u) = rev (takeWhile is_ws (rev ?u) @ dropWhile is_ws (rev ?u))"
    by (rule arg_cong)
  then have u: "?u = trim s @ ?t" by (simp only: rev_append rev_rev_ident trim_def)
  have "s = ?l @ ?u" by simp
  with u have "s = ?l @ trim s @ ?t" by simp
  moreover have "\<forall>c \<in> set ?l. is_ws c" by (auto dest: set_takeWhileD)
  moreover have "\<forall>c \<in> set ?t. is_ws c" by (auto dest: set_takeWhileD)
  ultimately show ?thesis by blast
qed

lemma trim_all_ws:
  assumes "\<forall>c \<in> set s. is_ws c"
  shows "trim s = []"
proof -
  from assms have d: "dropWhile is_ws s = []" by simp
  show ?thesis unfolding trim_def d by simp
qed

lemma is_ws_code_units:
  "is_ws c \<longleftrightarrow>
     c \<in> {0x0009, 0x000A, 0x000B, 0x000C, 0x000D, 0x0020, 0x00A0, 0x1680, 0x2028, 0x2029,
          0x202F, 0x205F, 0x3000, 0xFEFF} \<or> (0x2000 \<le> c \<and> c \<le> 0x200A)"
  by (auto simp: is_ws_def)

lemma content_normal_ends:
  assumes "content_normal ds" "m \<in> set ds"
  shows "content m \<noteq> [] \<and> \<not> is_ws (hd (content m)) \<and> \<not> is_ws (last (content m))
       \<and> length (content m) \<le> 200"
proof -
  from assms have t: "trim (content m) = content m" and l: "1 \<le> length (content m)"
    and u: "length (content m) \<le> 200"
    by (auto simp: content_normal_def)
  from l have ne: "content m \<noteq> []" by auto
  with t have "trim (content m) \<noteq> []" by simp
  from trim_ends [OF this] t have "\<not> is_ws (hd (content m)) \<and> \<not> is_ws (last (content m))"
    by simp
  with ne u show ?thesis by simp
qed

lemma content_ws_rejected:
  assumes "req_content b = JStr s" "\<forall>c \<in> set s. is_ws c"
  shows "post_markers js e docs b =
           (\<lparr>code = 400, status = ''fail'',
             payload = Message (Message_of (ValidationError (validate js b)))\<rparr>, docs)
       \<and> err_content (validate js b) = Some (ValidatorError K_required msg_content_required)"
proof -
  from assms(2) have "trim s = []" by (rule trim_all_ws)
  with assms(1) have e: "err_content (validate js b) = Some (ValidatorError K_required msg_content_required)"
    by (simp add: validate_def set_content_JStr validate_path_def content_validators_def
                  required_string_def)
  then have "validate js b \<noteq> no_errors" by (auto simp: no_errors_def)
  from post_markers_rejects [OF this] e show ?thesis by simp
qed

text \<open>
  C3. When a request whose content is a string is answered 201, the stored marker's
  content is that string with the surrounding whitespace trimmed: the input is a run of
  whitespace, then the stored content, then a run of whitespace, and the stored content
  neither begins nor ends with whitespace; its length is between 1 and 200. A string
  content that consists of whitespace only is answered 400 and nothing is stored. In every
  collection the service can reach, the content of every marker is non-empty, neither
  begins nor ends with whitespace (so it is not whitespace-only), and is at most 200
  long. Whitespace is the code units that \<^verbatim>\<open>String.prototype.trim\<close> removes: TAB, LF, VT, FF, CR,
  SPACE, U+00A0, U+1680, U+2000 to U+200A, U+2028, U+2029, U+202F, U+205F, U+3000, U+FEFF.
\<close>

theorem content_trimmed:
  "(post_markers js e docs b = (r, docs') \<and> code r = 201 \<and> req_content b = JStr s \<longrightarrow>
      (\<exists>d l t. payload r = Data d \<and> docs' = docs @ [d] \<and> content d = trim s
          \<and> s = l @ content d @ t \<and> (\<forall>c \<in> set l. is_ws c) \<and> (\<forall>c \<in> set t. is_ws c)
          \<and> \<not> is_ws (hd (content d)) \<and> \<not> is_ws (last (content d))
          \<and> 1 \<le> length (content d) \<and> length (content d) \<le> 200))
   \<and> (req_content b = JStr s \<and> (\<forall>c \<in> set s. is_ws c) \<longrightarrow>
        post_markers js e docs b =
          (\<lparr>code = 400, status = ''fail'',
            payload = Message (Message_of (ValidationError (validate js b)))\<rparr>, docs)
        \<and> err_content (validate js b) = Some (ValidatorError K_required msg_content_required))
   \<and> (\<forall>m \<in> set (run js reqs []).
         content m \<noteq> [] \<and> \<not> is_ws (hd (content m)) \<and> \<not> is_ws (last (content m))
         \<and> length (content m) \<le> 200)
   \<and> (is_ws c \<longleftrightarrow>
         c \<in> {0x0009, 0x000A, 0x000B, 0x000C, 0x000D, 0x0020, 0x00A0, 0x1680, 0x2028, 0x2029,
              0x202F, 0x205F, 0x3000, 0xFEFF} \<or> (0x2000 \<le> c \<and> c \<le> 0x200A))"
proof (intro conjI impI ballI)
  assume a: "post_markers js e docs b = (r, docs') \<and> code r = 201 \<and> req_content b = JStr s"
  then obtain d where n: "new_Marker js e b = Inr d" and p: "payload r = Data d"
    and s: "docs' = docs @ [d]"
    using post_markers_created by blast
  from new_Marker_content [OF n] a have c: "content d = trim s"
    and len: "1 \<le> length (content d)" "length (content d) \<le> 200"
    by (simp_all add: set_content_JStr)
  from len c have "trim s \<noteq> []" by auto
  from trim_ends [OF this] c have ends: "\<not> is_ws (hd (content d))" "\<not> is_ws (last (content d))"
    by simp_all
  from trim_decompose [of s] c obtain l t where
    dec: "s = l @ content d @ t" "\<forall>c \<in> set l. is_ws c" "\<forall>c \<in> set t. is_ws c" by auto
  show "\<exists>d l t. payload r = Data d \<and> docs' = docs @ [d] \<and> content d = trim s
          \<and> s = l @ content d @ t \<and> (\<forall>c \<in> set l. is_ws c) \<and> (\<forall>c \<in> set t. is_ws c)
          \<and> \<not> is_ws (hd (content d)) \<and> \<not> is_ws (last (content d))
          \<and> 1 \<le> length (content d) \<and> length (content d) \<le> 200"
    using p s c dec ends len by (intro exI conjI)
next
  assume "req_content b = JStr s \<and> (\<forall>c \<in> set s. is_ws c)"
  then have *: "req_content b = JStr s" "\<forall>c \<in> set s. is_ws c" by simp_all
  from content_ws_rejected [OF *]
  show "post_markers js e docs b =
          (\<lparr>code = 400, status = ''fail'',
            payload = Message (Message_of (ValidationError (validate js b)))\<rparr>, docs)"
    and "err_content (validate js b) = Some (ValidatorError K_required msg_content_required)"
    by simp_all
next
  fix m assume "m \<in> set (run js reqs [])"
  from content_normal_ends [OF content_normal_run this]
  show "content m \<noteq> []" "\<not> is_ws (hd (content m))" "\<not> is_ws (last (content m))"
    "length (content m) \<le> 200" by simp_all
next
  show "is_ws c \<longleftrightarrow>
         c \<in> {0x0009, 0x000A, 0x000B, 0x000C, 0x000D, 0x0020, 0x00A0, 0x1680, 0x2028, 0x2029,
              0x202F, 0x205F, 0x3000, 0xFEFF} \<or> (0x2000 \<le> c \<and> c \<le> 0x200A)"
    by (rule is_ws_code_units)
qed

text \<open>
  The instance: the content \<^verbatim>\<open>" hello "\<close> is stored as \<^verbatim>\<open>"hello"\<close>, one space removed at each
  end; a content of a TAB and a space is rejected.
\<close>

theorem content_trimmed_witness:
  "post_markers sample_conversions (env_at 1000 1) [] (body_of 45 (- 122) '' hello '') =
     (\<lparr>code = 201, status = ''success'',
       payload = Data \<lparr>oid = 1, position = \<lparr>lat = Fin 45, lng = Fin (- 122)\<rparr>,
                       content = ascii ''hello'', createdAt = 1000, version = 0\<rparr>\<rparr>,
      [\<lparr>oid = 1, position = \<lparr>lat = Fin 45, lng = Fin (- 122)\<rparr>,
        content = ascii ''hello'', createdAt = 1000, version = 0\<rparr>])
   \<and> (\<exists>l t. ascii '' hello '' = l @ ascii ''hello'' @ t
         \<and> (\<forall>c \<in> set l. is_ws c) \<and> (\<forall>c \<in> set t. is_ws c))
   \<and> \<not> is_ws (hd (ascii ''hello'')) \<and> \<not> is_ws (last (ascii ''hello''))
   \<and> fst (post_markers sample_conversions (env_at 2000 2) []
        \<lparr>req_lat = JNum (Fin 1), req_lng = JNum (Fin 1), req_content = JStr [0x0009, 0x0020]\<rparr>)
       = \<lparr>code = 400, status = ''fail'',
          payload = Message (Message_of (ValidationError
            \<lparr>err_lat = None, err_lng = None,
             err_content = Some (ValidatorError K_required msg_content_required)\<rparr>))\<rparr>
   \<and> is_ws 0x0009"
proof -
  let ?d = "\<lparr>oid = 1, position = \<lparr>lat = Fin 45, lng = Fin (- 122)\<rparr>,
                       content = ascii ''hello'', createdAt = 1000, version = 0\<rparr>"
  let ?r = "\<lparr>code = 201, status = ''success'', payload = Data ?d\<rparr>"
  let ?b = "body_of 45 (- 122) '' hello ''"
  let ?w = "\<lparr>req_lat = JNum (Fin 1), req_lng = JNum (Fin 1), req_content = JStr [0x0009, 0x0020]\<rparr>"
  have p: "post_markers sample_conversions (env_at 1000 1) [] ?b = (?r, [?d])"
    by (simp add: model_defs)
  have h: "post_markers sample_conversions (env_at 1000 1) [] ?b = (?r, [?d]) \<and> code ?r = 201
      \<and> req_content ?b = JStr (ascii '' hello '')"
    using p by (simp add: body_of_def)
  have "run sample_conversions [(env_at 1000 1, ?b)] [] = [?d]"
    by (simp add: model_defs)
  then have m: "?d \<in> set (run sample_conversions [(env_at 1000 1, ?b)] [])"
    by simp
  note t = content_trimmed [of sample_conversions "env_at 1000 1" "[]" ?b ?r "[?d]"
              "ascii '' hello ''" "[(env_at 1000 1, ?b)]" "0x0009"]
  note t1 = t [THEN conjunct1, rule_format, OF h]
  note t3 = t [THEN conjunct2, THEN conjunct2, THEN conjunct1, rule_format, OF m]
  note t4 = t [THEN conjunct2, THEN conjunct2, THEN conjunct2]
  from t1 obtain d l t' where pd: "payload ?r = Data d"
    and eq: "ascii '' hello '' = l @ content d @ t'"
    and wl: "\<forall>c \<in> set l. is_ws c" and wt: "\<forall>c \<in> set t'. is_ws c" by (elim exE conjE)
  from pd have "content d = ascii ''hello''" by auto
  with eq have eq': "ascii '' hello '' = l @ ascii ''hello'' @ t'" by simp
  have dec: "\<exists>l t. ascii '' hello '' = l @ ascii ''hello'' @ t
         \<and> (\<forall>c \<in> set l. is_ws c) \<and> (\<forall>c \<in> set t. is_ws c)"
    using eq' wl wt by (intro exI conjI)
  from t3 have ends: "\<not> is_ws (hd (content ?d)) \<and> \<not> is_ws (last (content ?d))" by simp
  from t4 have tab: "is_ws 0x0009" by simp
  have sp: "is_ws 0x0020"
    using content_trimmed [of sample_conversions "env_at 1000 1" "[]" ?b ?r "[?d]"
              "ascii '' hello ''" "[(env_at 1000 1, ?b)]" "0x0020",
              THEN conjunct2, THEN conjunct2, THEN conjunct2] by simp
  have wsb: "req_content ?w = JStr [0x0009, 0x0020] \<and> (\<forall>c \<in> set [0x0009, 0x0020]. is_ws c)"
    using tab sp by simp
  note t2 = content_trimmed [of sample_conversions "env_at 2000 2" "[]" ?w ?r "[?d]"
              "[0x0009, 0x0020]" "[]" "0x0020"]
  from t2 [THEN conjunct2, THEN conjunct1, rule_format, OF wsb] have rej: "post_markers sample_conversions (env_at 2000 2) [] ?w =
          (\<lparr>code = 400, status = ''fail'',
            payload = Message (Message_of (ValidationError (validate sample_conversions ?w)))\<rparr>, [])"
    and ec: "err_content (validate sample_conversions ?w) = Some (ValidatorError K_required msg_content_required)"
    by simp_all
  have "err_lat (validate sample_conversions ?w) = None" "err_lng (validate sample_conversions ?w) = None"
    by (simp_all add: err_lat_num err_lng_num)
  with ec have "validate sample_conversions ?w = \<lparr>err_lat = None, err_lng = None,
             err_content = Some (ValidatorError K_required msg_content_required)\<rparr>"
    by (cases "validate sample_conversions ?w") simp
  with rej have r2: "fst (post_markers sample_conversions (env_at 2000 2) [] ?w)
       = \<lparr>code = 400, status = ''fail'',
          payload = Message (Message_of (ValidationError
            \<lparr>err_lat = None, err_lng = None,
             err_content = Some (ValidatorError K_required msg_content_required)\<rparr>))\<rparr>" by simp
  from p dec ends tab r2 show ?thesis by simp
qed

subsection \<open>Listing\<close>

lemma get_markers_ok:
  assumes "fault e = None"
  shows "get_markers e docs =
           \<lparr>code = 200, status = ''success'',
            payload = Data_list (sort_key (\<lambda>m. - createdAt m) docs)\<rparr>"
  using assms by (simp add: get_markers_def)

lemma sort_key_descending:
  "sorted_wrt (\<lambda>a b. createdAt b \<le> createdAt a) (sort_key (\<lambda>m. - createdAt m) docs)"
proof -
  have "sorted (map (\<lambda>m. - createdAt m) (sort_key (\<lambda>m. - createdAt m) docs))"
    by (rule sorted_sort_key)
  then show ?thesis by (simp add: sorted_map)
qed

lemma three_descending:
  fixes t1 t2 t3 :: int
  assumes lt: "t1 < t2" "t2 < t3"
    and ms: "mset (map createdAt docs) = {#t1, t2, t3#}"
  shows "map createdAt (sort_key (\<lambda>m. - createdAt m) docs) = [t3, t2, t1]"
proof -
  let ?ms = "sort_key (\<lambda>m. - createdAt m) docs"
  let ?ys = "map (\<lambda>m. - createdAt m) ?ms"
  have "mset ?ys = image_mset uminus (mset (map createdAt docs))"
    by (simp add: multiset.map_comp comp_def)
  also have "\<dots> = mset [- t3, - t2, - t1]"
    unfolding ms by simp
  finally have m: "mset ?ys = mset [- t3, - t2, - t1]" .
  have s: "sorted ?ys" by (rule sorted_sort_key)
  from m s have "sort [- t3, - t2, - t1] = ?ys" by (rule properties_for_sort)
  moreover have "sort [- t3, - t2, - t1] = [- t3, - t2, - t1]"
    using lt by (intro sorted_sort_id) simp
  ultimately have "?ys = [- t3, - t2, - t1]" by simp
  then have "map uminus ?ys = map uminus [- t3, - t2, - t1]" by simp
  then show ?thesis by (simp add: comp_def)
qed

text \<open>
  C4. When the database call does not fail, \<^verbatim>\<open>GET /markers\<close> answers 200 with a list that
  holds every stored marker exactly as often as the collection does, ordered by
  \<^verbatim>\<open>createdAt\<close> descending; in particular three markers created at times t1 < t2 < t3 are
  listed in the order t3, t2, t1.
\<close>

theorem list_newest_first:
  "fault e = None \<longrightarrow>
   (\<exists>ms. get_markers e docs = \<lparr>code = 200, status = ''success'', payload = Data_list ms\<rparr>
      \<and> mset ms = mset docs
      \<and> sorted_wrt (\<lambda>a b. createdAt b \<le> createdAt a) ms
      \<and> (t1 < t2 \<and> t2 < t3 \<and> mset (map createdAt docs) = {#t1, t2, t3#} \<longrightarrow>
           map createdAt ms = [t3, t2, t1]))"
proof
  assume f: "fault e = None"
  let ?ms = "sort_key (\<lambda>m. - createdAt m) docs"
  show "\<exists>ms. get_markers e docs = \<lparr>code = 200, status = ''success'', payload = Data_list ms\<rparr>
      \<and> mset ms = mset docs
      \<and> sorted_wrt (\<lambda>a b. createdAt b \<le> createdAt a) ms
      \<and> (t1 < t2 \<and> t2 < t3 \<and> mset (map createdAt docs) = {#t1, t2, t3#} \<longrightarrow>
           map createdAt ms = [t3, t2, t1])"
  proof (intro exI conjI impI)
    show "get_markers e docs = \<lparr>code = 200, status = ''success'', payload = Data_list ?ms\<rparr>"
      using f by (rule get_markers_ok)
    show "mset ?ms = mset docs" by simp
    show "sorted_wrt (\<lambda>a b. createdAt b \<le> createdAt a) ?ms"
      by (rule sort_key_descending)
    assume "t1 < t2 \<and> t2 < t3 \<and> mset (map createdAt docs) = {#t1, t2, t3#}"
    then show "map createdAt ?ms = [t3, t2, t1]"
      by (intro three_descending) simp_all
  qed
qed

text \<open>The instance: three markers created at the times 1000, 2000 and 3000.\<close>

theorem list_newest_first_witness:
  "fault (env_at 5000 9) = None \<and> (1000::int) < 2000 \<and> (2000::int) < 3000
   \<and> mset (map createdAt (run sample_conversions
        [(env_at 1000 1, body_of 1 1 ''a''), (env_at 2000 2, body_of 2 2 ''b''),
         (env_at 3000 3, body_of 3 3 ''c'')] [])) = {#1000, 2000, 3000#}
   \<and> (\<exists>ms. get_markers (env_at 5000 9) (run sample_conversions
        [(env_at 1000 1, body_of 1 1 ''a''), (env_at 2000 2, body_of 2 2 ''b''),
         (env_at 3000 3, body_of 3 3 ''c'')] []) =
          \<lparr>code = 200, status = ''success'', payload = Data_list ms\<rparr>
        \<and> map createdAt ms = [3000, 2000, 1000])"
proof -
  let ?docs = "run sample_conversions
        [(env_at 1000 1, body_of 1 1 ''a''), (env_at 2000 2, body_of 2 2 ''b''),
         (env_at 3000 3, body_of 3 3 ''c'')] []"
  have d: "map createdAt ?docs = [1000, 2000, 3000]"
    by (simp add: model_defs)
  have h: "fault (env_at 5000 9) = None" "(1000::int) < 2000 \<and> (2000::int) < 3000
      \<and> mset (map createdAt ?docs) = {#1000, 2000, 3000#}"
    unfolding d by (simp_all add: env_at_def)
  from list_newest_first [of "env_at 5000 9" ?docs 1000 2000 3000, rule_format, OF h(1)]
  obtain ms where g: "get_markers (env_at 5000 9) ?docs =
          \<lparr>code = 200, status = ''success'', payload = Data_list ms\<rparr>"
    and i: "(1000::int) < 2000 \<and> (2000::int) < 3000
      \<and> mset (map createdAt ?docs) = {#1000, 2000, 3000#} \<longrightarrow>
        map createdAt ms = [3000, 2000, 1000]"
    by (elim exE conjE)
  from i h(2) have "map createdAt ms = [3000, 2000, 1000]" by (rule mp)
  with g have "\<exists>ms. get_markers (env_at 5000 9) ?docs =
          \<lparr>code = 200, status = ''success'', payload = Data_list ms\<rparr>
        \<and> map createdAt ms = [3000, 2000, 1000]" by (intro exI conjI)
  with h show ?thesis by (intro conjI) simp_all
qed

subsection \<open>Round trip\<close>

text \<open>
  C7. Creating a marker from \<^verbatim>\<open>{lat: 45.0, lng: -122.0, content: " hello "}\<close>, on a collection
  that has no marker at that position and does not hold the generated id, succeeds, and a
  following listing contains the created marker, at position (45, -122) and with the
  content \<^verbatim>\<open>"hello"\<close>.
\<close>

theorem round_trip:
  assumes "fault e = None" and "fault e' = None"
    and "new_oid e \<notin> set (map oid docs)"
    and "\<lparr>lat = Fin 45, lng = Fin (- 122)\<rparr> \<notin> set (map position docs)"
  shows "\<exists>m docs' ms.
           post_markers js e docs
             \<lparr>req_lat = JNum (Fin 45), req_lng = JNum (Fin (- 122)),
              req_content = JStr (ascii '' hello '')\<rparr> =
             (\<lparr>code = 201, status = ''success'', payload = Data m\<rparr>, docs')
         \<and> get_markers e' docs' = \<lparr>code = 200, status = ''success'', payload = Data_list ms\<rparr>
         \<and> m \<in> set ms
         \<and> position m = \<lparr>lat = Fin 45, lng = Fin (- 122)\<rparr>
         \<and> content m = ascii ''hello''"
proof -
  let ?b = "\<lparr>req_lat = JNum (Fin 45), req_lng = JNum (Fin (- 122)),
              req_content = JStr (ascii '' hello '')\<rparr>"
  let ?m = "\<lparr>oid = new_oid e, position = \<lparr>lat = Fin 45, lng = Fin (- 122)\<rparr>,
             content = ascii ''hello'', createdAt = now e, version = 0\<rparr>"
  have n: "new_Marker js e ?b = Inr ?m"
    by (simp add: new_Marker_def validate_def validate_path_def lat_validators_def
          lng_validators_def content_validators_def set_content_def required_number_def
          min_validator_def max_validator_def required_string_def minlength_validator_def
          maxlength_validator_def no_errors_def ascii_def trim_def is_ws_def
          SchemaNumber_cast_def)
  have i: "insertOne e docs ?m = Inr (docs @ [?m])"
    using assms by (simp add: insertOne_def)
  have p: "post_markers js e docs ?b =
             (\<lparr>code = 201, status = ''success'', payload = Data ?m\<rparr>, docs @ [?m])"
    by (simp add: post_markers_valid [OF n] i)
  have g: "get_markers e' (docs @ [?m]) =
             \<lparr>code = 200, status = ''success'',
              payload = Data_list (sort_key (\<lambda>m. - createdAt m) (docs @ [?m]))\<rparr>"
    using assms(2) by (rule get_markers_ok)
  show ?thesis
  proof (intro exI conjI)
    show "post_markers js e docs ?b =
             (\<lparr>code = 201, status = ''success'', payload = Data ?m\<rparr>, docs @ [?m])" by (rule p)
    show "get_markers e' (docs @ [?m]) =
             \<lparr>code = 200, status = ''success'',
              payload = Data_list (sort_key (\<lambda>m. - createdAt m) (docs @ [?m]))\<rparr>" by (rule g)
    show "?m \<in> set (sort_key (\<lambda>m. - createdAt m) (docs @ [?m]))" by simp
  qed simp_all
qed

text \<open>The instance: the empty collection.\<close>

theorem round_trip_witness:
  "fault (env_at 1000 1) = None \<and> fault (env_at 2000 2) = None
   \<and> new_oid (env_at 1000 1) \<notin> set (map oid [])
   \<and> \<lparr>lat = Fin 45, lng = Fin (- 122)\<rparr> \<notin> set (map position [])
   \<and> (\<exists>m docs' ms.
           post_markers sample_conversions (env_at 1000 1) []
             \<lparr>req_lat = JNum (Fin 45), req_lng = JNum (Fin (- 122)),
              req_content = JStr (ascii '' hello '')\<rparr> =
             (\<lparr>code = 201, status = ''success'', payload = Data m\<rparr>, docs')
         \<and> get_markers (env_at 2000 2) docs' =
             \<lparr>code = 200, status = ''success'', payload = Data_list ms\<rparr>
         \<and> m \<in> set ms
         \<and> position m = \<lparr>lat = Fin 45, lng = Fin (- 122)\<rparr>
         \<and> content m = ascii ''hello'')"
proof -
  have h: "fault (env_at 1000 1) = None" "fault (env_at 2000 2) = None"
    "new_oid (env_at 1000 1) \<notin> set (map oid [])"
    "\<lparr>lat = Fin 45, lng = Fin (- 122)\<rparr> \<notin> set (map position [])"
    by (simp_all add: env_at_def)
  from round_trip [OF h, of sample_conversions] h show ?thesis by (intro conjI)
qed

subsection \<open>Casting\<close>

text \<open>
  C10. Values that are not of the declared types are cast, not rejected: with the
  language's conversions \<^verbatim>\<open>Number("45") = 45\<close> and \<^verbatim>\<open>(7).toString() = "7"\<close>, the request
  \<^verbatim>\<open>{lat: "45", lng: "45", content: 7}\<close> on the empty collection is answered 201 and the
  stored marker holds the numbers 45 and 45 and the string \<^verbatim>\<open>"7"\<close>.
\<close>

theorem casts_accepted:
  assumes "Number_of js (ascii ''45'') = Some (Fin 45)"
    and "toString_of js (Fin 7) = ascii ''7''"
    and "fault e = None"
  shows "post_markers js e []
           \<lparr>req_lat = JStr (ascii ''45''), req_lng = JStr (ascii ''45''),
            req_content = JNum (Fin 7)\<rparr> =
         (\<lparr>code = 201, status = ''success'',
           payload = Data \<lparr>oid = new_oid e, position = \<lparr>lat = Fin 45, lng = Fin 45\<rparr>,
                           content = ascii ''7'', createdAt = now e, version = 0\<rparr>\<rparr>,
          [\<lparr>oid = new_oid e, position = \<lparr>lat = Fin 45, lng = Fin 45\<rparr>,
            content = ascii ''7'', createdAt = now e, version = 0\<rparr>])"
proof -
  let ?b = "\<lparr>req_lat = JStr (ascii ''45''), req_lng = JStr (ascii ''45''),
            req_content = JNum (Fin 7)\<rparr>"
  let ?m = "\<lparr>oid = new_oid e, position = \<lparr>lat = Fin 45, lng = Fin 45\<rparr>,
            content = ascii ''7'', createdAt = now e, version = 0\<rparr>"
  have a: "ascii ''45'' \<noteq> []" by (simp add: ascii_def)
  have lat: "SchemaNumber_cast js (JStr (ascii ''45'')) = Cast_ok (Some (Fin 45))"
    using assms(1) a by (simp add: SchemaNumber_cast_def)
  have t: "trim (ascii ''7'') = ascii ''7''" "ascii ''7'' \<noteq> []" "length (ascii ''7'') = 1"
    by (simp_all add: ascii_def trim_def is_ws_def)
  have c: "set_content js (JNum (Fin 7)) = Cast_ok (Some (ascii ''7''))"
    using assms(2) t by (simp add: set_content_def)
  have n: "new_Marker js e ?b = Inr ?m"
    by (simp add: new_Marker_def validate_def lat c t validate_path_def lat_validators_def
          lng_validators_def content_validators_def required_number_def
          min_validator_def max_validator_def required_string_def minlength_validator_def
          maxlength_validator_def no_errors_def)
  have i: "insertOne e [] ?m = Inr [?m]"
    using assms(3) by (simp add: insertOne_def)
  show ?thesis by (simp add: post_markers_valid [OF n] i)
qed

text \<open>The instance: the sample conversions, at time 1000 with the id 1.\<close>

theorem casts_accepted_witness:
  "Number_of sample_conversions (ascii ''45'') = Some (Fin 45)
   \<and> toString_of sample_conversions (Fin 7) = ascii ''7''
   \<and> fault (env_at 1000 1) = None
   \<and> post_markers sample_conversions (env_at 1000 1) []
           \<lparr>req_lat = JStr (ascii ''45''), req_lng = JStr (ascii ''45''),
            req_content = JNum (Fin 7)\<rparr> =
         (\<lparr>code = 201, status = ''success'',
           payload = Data \<lparr>oid = 1, position = \<lparr>lat = Fin 45, lng = Fin 45\<rparr>,
                           content = ascii ''7'', createdAt = 1000, version = 0\<rparr>\<rparr>,
          [\<lparr>oid = 1, position = \<lparr>lat = Fin 45, lng = Fin 45\<rparr>,
            content = ascii ''7'', createdAt = 1000, version = 0\<rparr>])"
proof -
  have h: "Number_of sample_conversions (ascii ''45'') = Some (Fin 45)"
     "toString_of sample_conversions (Fin 7) = ascii ''7''"
     "fault (env_at 1000 1) = None"
    by (simp_all add: sample_conversions_def env_at_def)
  have e: "new_oid (env_at 1000 1) = 1" "now (env_at 1000 1) = 1000"
    by (simp_all add: env_at_def)
  from casts_accepted [OF h] h show ?thesis unfolding e by (intro conjI)
qed

subsection \<open>Failures of the database call\<close>

text \<open>
  C5. The two handlers treat a failing database call differently. With a valid body and a
  database call that fails with the message \<^verbatim>\<open>connection closed\<close>, \<^verbatim>\<open>POST /markers\<close> answers
  400 with status \<^verbatim>\<open>fail\<close> and the message of the driver's error, where \<^verbatim>\<open>GET /markers\<close>
  answers 500 with its fixed message.
\<close>

theorem store_failure_responses:
  "post_markers sample_conversions
       \<lparr>now = 1000, new_oid = 1, fault = Some (ascii ''connection closed'')\<rparr> []
       (body_of 10 20 ''x'') =
     (\<lparr>code = 400, status = ''fail'',
       payload = Message (Message_of (StoreError (ascii ''connection closed'')))\<rparr>, [])
   \<and> get_markers \<lparr>now = 1000, new_oid = 1, fault = Some (ascii ''connection closed'')\<rparr> [] =
     \<lparr>code = 500, status = ''error'', payload = Message (Literal msg_fetch_failed)\<rparr>"
  by (simp add: get_markers_def post_markers_def create_def new_Marker_def insertOne_def
        validate_def validate_path_def lat_validators_def lng_validators_def
        content_validators_def set_content_def required_number_def min_validator_def
        max_validator_def required_string_def minlength_validator_def maxlength_validator_def
        no_errors_def body_of_def ascii_def trim_def is_ws_def SchemaNumber_cast_def)

subsection \<open>The checks of the validator\<close>





























subsection \<open>The JSON of a marker\<close>

lemma keys_toJSON: "keys (toJSON d) = {''_id'', ''position'', ''content'', ''createdAt'', ''__v''}"
  by (auto simp: keys_def toJSON_def)

lemma position_toJSON:
  "map_of (toJSON d) ''position'' =
     Some (J_object [(''lat'', J_number (lat (position d))), (''lng'', J_number (lng (position d)))])"
  by (simp add: toJSON_def)

lemma data_markers_payload:
  "data_markers r =
     (case payload r of Data d \<Rightarrow> [toJSON d] | Data_list ds \<Rightarrow> map toJSON ds | Message m \<Rightarrow> [])"
proof (cases "payload r")
  case (Data_list ds)
  have "concat (map (\<lambda>j. case j of J_object kv \<Rightarrow> [kv] | _ \<Rightarrow> []) (map (\<lambda>d. J_object (toJSON d)) ds))
          = map toJSON ds"
    by (induction ds) simp_all
  with Data_list show ?thesis by (simp add: data_markers_def response_json_def)
qed (simp_all add: data_markers_def response_json_def)

lemma data_markers_toJSON: "kv \<in> set (data_markers r) \<Longrightarrow> \<exists>d. kv = toJSON d"
  by (auto simp: data_markers_payload split: payload.splits)

text \<open>
  C8, as stated, fails. The marker in the answer to a successful \<^verbatim>\<open>POST\<close> is serialised
  with the properties \<^verbatim>\<open>position\<close>, \<^verbatim>\<open>_id\<close>, \<^verbatim>\<open>content\<close>, \<^verbatim>\<open>createdAt\<close> and \<^verbatim>\<open>__v\<close>; it has no
  property named \<^verbatim>\<open>id\<close>.
\<close>

theorem marker_json_id_counterexample:
  "data_markers (fst (post_markers sample_conversions (env_at 1000 1) []
       (body_of 45 (- 122) '' hello ''))) =
     [[(''position'', J_object [(''lat'', J_number (Fin 45)), (''lng'', J_number (Fin (- 122)))]),
       (''_id'', J_ObjectId 1),
       (''content'', J_string (ascii ''hello'')),
       (''createdAt'', J_Date 1000),
       (''__v'', J_nat 0)]]
   \<and> ''id'' \<notin> keys
     [(''position'', J_object [(''lat'', J_number (Fin 45)), (''lng'', J_number (Fin (- 122)))]),
       (''_id'', J_ObjectId 1),
       (''content'', J_string (ascii ''hello'')),
       (''createdAt'', J_Date 1000),
       (''__v'', J_nat 0)]"
  by (simp add: data_markers_payload toJSON_def keys_def model_defs)

text \<open>
  C8, amended. Every marker serialised in the answer of \<^verbatim>\<open>POST /markers\<close> or of
  \<^verbatim>\<open>GET /markers\<close> has exactly the properties \<^verbatim>\<open>_id\<close>, \<^verbatim>\<open>position\<close>, \<^verbatim>\<open>content\<close>, \<^verbatim>\<open>createdAt\<close>
  and \<^verbatim>\<open>__v\<close>, its \<^verbatim>\<open>position\<close> is an object with exactly \<^verbatim>\<open>lat\<close> and \<^verbatim>\<open>lng\<close>, and it has no
  property named \<^verbatim>\<open>id\<close>: the identifier is \<^verbatim>\<open>_id\<close>.
\<close>

theorem marker_json_shape:
  "\<forall>kv \<in> set (data_markers (fst (post_markers js e docs b))) \<union> set (data_markers (get_markers e' docs)).
     keys kv = {''_id'', ''position'', ''content'', ''createdAt'', ''__v''}
     \<and> (\<exists>p. map_of kv ''position'' = Some (J_object p) \<and> keys p = {''lat'', ''lng''})
     \<and> ''id'' \<notin> keys kv"
proof
  fix kv
  assume "kv \<in> set (data_markers (fst (post_markers js e docs b))) \<union> set (data_markers (get_markers e' docs))"
  then obtain d where kv: "kv = toJSON d" using data_markers_toJSON by blast
  have "keys [(''lat'', J_number (lat (position d))), (''lng'', J_number (lng (position d)))]
          = {''lat'', ''lng''}"
    by (auto simp: keys_def)
  then have "\<exists>p. map_of kv ''position'' = Some (J_object p) \<and> keys p = {''lat'', ''lng''}"
    unfolding kv position_toJSON by blast
  moreover have "keys kv = {''_id'', ''position'', ''content'', ''createdAt'', ''__v''}"
    unfolding kv by (rule keys_toJSON)
  moreover have "''id'' \<notin> keys kv" unfolding kv keys_toJSON by simp
  ultimately show "keys kv = {''_id'', ''position'', ''content'', ''createdAt'', ''__v''}
     \<and> (\<exists>p. map_of kv ''position'' = Some (J_object p) \<and> keys p = {''lat'', ''lng''})
     \<and> ''id'' \<notin> keys kv" by (intro conjI)
qed

text \<open>The instance: the marker created from \<^verbatim>\<open>{lat: 45, lng: -122, content: " hello "}\<close>.\<close>

theorem marker_json_shape_witness:
  "toJSON \<lparr>oid = 1, position = \<lparr>lat = Fin 45, lng = Fin (- 122)\<rparr>, content = ascii ''hello'',
           createdAt = 1000, version = 0\<rparr>
     \<in> set (data_markers (fst (post_markers sample_conversions (env_at 1000 1) []
              (body_of 45 (- 122) '' hello ''))))
   \<and> keys (toJSON \<lparr>oid = 1, position = \<lparr>lat = Fin 45, lng = Fin (- 122)\<rparr>,
                    content = ascii ''hello'', createdAt = 1000, version = 0\<rparr>)
       = {''_id'', ''position'', ''content'', ''createdAt'', ''__v''}
   \<and> ''id'' \<notin> keys (toJSON \<lparr>oid = 1, position = \<lparr>lat = Fin 45, lng = Fin (- 122)\<rparr>,
                    content = ascii ''hello'', createdAt = 1000, version = 0\<rparr>)"
proof -
  let ?d = "\<lparr>oid = 1, position = \<lparr>lat = Fin 45, lng = Fin (- 122)\<rparr>, content = ascii ''hello'',
           createdAt = 1000, version = 0\<rparr>"
  let ?r = "fst (post_markers sample_conversions (env_at 1000 1) [] (body_of 45 (- 122) '' hello ''))"
  have p: "payload ?r = Data ?d" by (simp add: model_defs)
  have m: "toJSON ?d \<in> set (data_markers ?r)"
    unfolding data_markers_payload p by simp
  then have u: "toJSON ?d \<in> set (data_markers ?r) \<union> set (data_markers (get_markers (env_at 1000 1) []))"
    by simp
  note t = marker_json_shape [of sample_conversions "env_at 1000 1" "[]" "body_of 45 (- 122) '' hello ''"
          "env_at 1000 1", THEN bspec, OF u]
  from t have 1: "keys (toJSON ?d) = {''_id'', ''position'', ''content'', ''createdAt'', ''__v''}"
    by (rule conjunct1)
  from t have 2: "''id'' \<notin> keys (toJSON ?d)"
    by (elim conjE)
  from m 1 2 show ?thesis by (intro conjI)
qed

end
